theory Spec2Isabelle
  imports Main "HOL-Library.Word"
begin

unbundle bit_operations_syntax

section \<open>The hardware watchpoint manager of the GDB stub (gdb/watchpoints.c)\<close>

subsection \<open>Data model\<close>

type_synonym u32 = "32 word"

text \<open>\<^verbatim>\<open>Handle\<close> is a 32-bit kernel handle; \<^verbatim>\<open>Result\<close> is a signed 32-bit result code,
  read here as an integer. \<^verbatim>\<open>R_SUCCEEDED(r)\<close> is \<^verbatim>\<open>r >= 0\<close>.\<close>

type_synonym Handle = u32
type_synonym Result = int

definition R_SUCCEEDED :: "Result \<Rightarrow> bool" where
  "R_SUCCEEDED r = (0 \<le> r)"

text \<open>The errno values behind \<^verbatim>\<open>-EBUSY\<close> and \<^verbatim>\<open>-EINVAL\<close>.\<close>

definition EBUSY :: int where
  "EBUSY = 16"

definition EINVAL :: int where
  "EINVAL = 22"

text \<open>Modelled from the spec: the enumeration \<^verbatim>\<open>WatchpointKind\<close> is declared in
  gdb/watchpoints.h, which is not part of the sources at hand. The spec gives the sentinel
  \<^verbatim>\<open>Disabled\<close> and the trigger kinds read, write and read-write; \<^verbatim>\<open>memset\<close> to zero
  produces the sentinel, so it is numbered 0, and the others follow in order.\<close>

datatype WatchpointKind =
  WATCHPOINT_DISABLED | WATCHPOINT_READ | WATCHPOINT_WRITE | WATCHPOINT_READWRITE

fun kind_u32 :: "WatchpointKind \<Rightarrow> u32" where
  "kind_u32 WATCHPOINT_DISABLED = 0"
| "kind_u32 WATCHPOINT_READ = 1"
| "kind_u32 WATCHPOINT_WRITE = 2"
| "kind_u32 WATCHPOINT_READWRITE = 3"

record Watchpoint =
  address :: u32
  size_w :: u32
  kind :: WatchpointKind
  debug :: Handle

text \<open>A C array of two elements is a pair; \<open>arr2_get\<close> and \<open>arr2_set\<close> are indexing
  and assignment. The source only ever indexes with 0 or 1 where the access is defined;
  the places where the index can be larger are guarded in the model.\<close>

definition arr2_get :: "'a \<times> 'a \<Rightarrow> nat \<Rightarrow> 'a" where
  "arr2_get a i = (if i = 0 then fst a else snd a)"

definition arr2_set :: "'a \<times> 'a \<Rightarrow> nat \<Rightarrow> 'a \<Rightarrow> 'a \<times> 'a" where
  "arr2_set a i v = (if i = 0 then (v, snd a) else (fst a, v))"

record WatchpointManager =
  total :: u32
  watchpoints :: "Watchpoint \<times> Watchpoint"

text \<open>Modelled from the spec: \<^verbatim>\<open>GDBContext\<close> is declared in gdb.h, not part of the sources
  at hand. Of the session only the three fields this file touches are kept: the debug
  handle (the context ID), the fixed 2-entry watched-address cache and the live count.
  The source indexes the cache with the live count without a bound, so a store can land
  past the array, in memory whose layout is not known here: \<open>ctx_overrun\<close> records
  every such store, index and value, oldest first.\<close>

record GDBContext =
  ctx_debug :: Handle
  nbWatchpoints :: u32
  ctx_watchpoints :: "u32 \<times> u32"
  ctx_overrun :: "(u32 \<times> u32) list"

text \<open>The globals of the file (\<^verbatim>\<open>manager\<close>, \<^verbatim>\<open>watchpointManagerLock\<close> and the static
  \<^verbatim>\<open>lockInitialized\<close>) and the kernel's side of the hardware interface: \<open>svcLog\<close> holds
  every call made so far with the result it returned, oldest first, and \<open>svcResult n\<close> is
  the result of the \<open>n\<close>-th call ever made, an arbitrary function of the state.\<close>

record sys =
  manager :: WatchpointManager
  lockInitialized :: bool
  lockCount :: nat
  svcLog :: "(u32 \<times> u32 \<times> u32 \<times> Result) list"
  svcResult :: "nat \<Rightarrow> Result"

definition zero_Watchpoint :: Watchpoint where
  "zero_Watchpoint = \<lparr>address = 0, size_w = 0, kind = WATCHPOINT_DISABLED, debug = 0\<rparr>"

definition zero_WatchpointManager :: WatchpointManager where
  "zero_WatchpointManager = \<lparr>total = 0, watchpoints = (zero_Watchpoint, zero_Watchpoint)\<rparr>"

subsection \<open>Collaborators\<close>

text \<open>Modelled from the spec: the recursive lock (\<^verbatim>\<open>RecursiveLock_Init\<close>,
  \<^verbatim>\<open>RecursiveLock_Lock\<close>, \<^verbatim>\<open>RecursiveLock_Unlock\<close>) is a library primitive that is not part
  of the sources at hand. The spec describes it by its acquisition count, released when
  the count is back at zero; one thread of control is modelled, so the lock is that
  count.\<close>

definition RecursiveLock_Init :: "sys \<Rightarrow> sys" where
  "RecursiveLock_Init s = s\<lparr>lockCount := 0\<rparr>"

definition RecursiveLock_Lock :: "sys \<Rightarrow> sys" where
  "RecursiveLock_Lock s = s\<lparr>lockCount := Suc (lockCount s)\<rparr>"

definition RecursiveLock_Unlock :: "sys \<Rightarrow> sys" where
  "RecursiveLock_Unlock s = s\<lparr>lockCount := lockCount s - 1\<rparr>"

text \<open>Modelled from the spec: \<^verbatim>\<open>svcSetHardwareBreakPoint\<close> is a kernel call that is not
  part of the sources at hand. The spec gives it a register-pair index, a control word
  and a compare value, and lets it fail; what it does to the registers is not modelled
  beyond the record of the call and of its result.\<close>

definition svcSetHardwareBreakPoint :: "sys \<Rightarrow> u32 \<Rightarrow> u32 \<Rightarrow> u32 \<Rightarrow> Result \<times> sys" where
  "svcSetHardwareBreakPoint s idx ctrl val =
     (let r = svcResult s (length (svcLog s))
      in (r, s\<lparr>svcLog := svcLog s @ [(idx, ctrl, val, r)]\<rparr>))"

subsection \<open>The operations\<close>

definition GDB_ResetWatchpoints :: "sys \<Rightarrow> sys" where
  "GDB_ResetWatchpoints s0 =
     (let s1 = (if \<not> lockInitialized s0
                then (RecursiveLock_Init s0)\<lparr>lockInitialized := True\<rparr> else s0);
          s2 = RecursiveLock_Lock s1;
          s3 = snd (svcSetHardwareBreakPoint s2 4 0 0);
          s4 = snd (svcSetHardwareBreakPoint s3 0x100 0 0);
          s5 = snd (svcSetHardwareBreakPoint s4 5 0 0);
          s6 = snd (svcSetHardwareBreakPoint s5 0x101 0 0);
          s7 = s6\<lparr>manager := zero_WatchpointManager\<rparr>
      in RecursiveLock_Unlock s7)"

text \<open>The scan shared by removal and lookup:
  \<^verbatim>\<open>for(id = 0; id < 2 && wp[id].address != address && wp[id].debug != ctx->debug; id++);\<close>\<close>

function scan_slots :: "WatchpointManager \<Rightarrow> GDBContext \<Rightarrow> u32 \<Rightarrow> nat \<Rightarrow> nat" where
  "scan_slots m ctx a i =
     (if i < 2 \<and> address (arr2_get (watchpoints m) i) \<noteq> a
              \<and> debug (arr2_get (watchpoints m) i) \<noteq> ctx_debug ctx
      then scan_slots m ctx a (Suc i) else i)"
  by pat_completeness auto
termination
  by (relation "measure (\<lambda>(m, ctx, a, i). 2 - i)") auto

declare scan_slots.simps [simp del]

definition GDB_GetWatchpointKind :: "sys \<Rightarrow> GDBContext \<Rightarrow> u32 \<Rightarrow> WatchpointKind" where
  "GDB_GetWatchpointKind s ctx a =
     (let i = scan_slots (manager s) ctx a 0
      in if i = 2 then WATCHPOINT_DISABLED else kind (arr2_get (watchpoints (manager s)) i))"

text \<open>The two control words. \<open>BCR\<close> is a constant; \<open>WCR\<close> depends on the slot, the
  byte-select mask and the kind.\<close>

definition BCR :: u32 where
  "BCR = push_bit 21 1 OR push_bit 20 1 OR push_bit 5 0xf OR push_bit 1 3 OR push_bit 0 1"

definition WCR :: "nat \<Rightarrow> u32 \<Rightarrow> WatchpointKind \<Rightarrow> u32" where
  "WCR i selectMask k =
     push_bit 20 1 OR push_bit 16 (4 + of_nat i) OR push_bit 5 selectMask
       OR push_bit 3 (kind_u32 k) OR push_bit 1 2 OR push_bit 0 1"

text \<open>The store \<^verbatim>\<open>ctx->watchpoints[n] = address\<close>: inside the array for \<open>n\<close> below 2,
  recorded as an overrun otherwise.\<close>

definition store_watchpoint :: "GDBContext \<Rightarrow> u32 \<Rightarrow> u32 \<Rightarrow> GDBContext" where
  "store_watchpoint ctx n a =
     (if n < 2 then ctx\<lparr>ctx_watchpoints := arr2_set (ctx_watchpoints ctx) (unat n) a\<rparr>
      else ctx\<lparr>ctx_overrun := ctx_overrun ctx @ [(n, a)]\<rparr>)"

text \<open>The shift \<^verbatim>\<open>1 << size\<close> has an unchecked count. A 32-bit shift by 32 or more gives
  0 here, as the register shift of the ARM11 does. The only sizes that reach the shift
  with such a count are \<open>2^32 - 3\<close> and above, for which the 32-bit sum of the region
  test wrapped; offset plus size is then at least \<open>2^32\<close>, so that \<open>selectMask\<close> is
  all ones shifted left by the offset also when the count is taken modulo 32.\<close>

definition shl_u32 :: "u32 \<Rightarrow> u32 \<Rightarrow> u32" where
  "shl_u32 x n = (if n < 32 then push_bit (unat n) x else 0)"

text \<open>Each \<^verbatim>\<open>return\<close> of the source is one branch, with the lock count as that path
  leaves it. Nothing guards the shift or the index of the cache store, and the model has
  no guard there either.\<close>

definition GDB_AddWatchpoint ::
  "sys \<Rightarrow> GDBContext \<Rightarrow> u32 \<Rightarrow> u32 \<Rightarrow> WatchpointKind \<Rightarrow> int \<times> sys \<times> GDBContext" where
  "GDB_AddWatchpoint s0 ctx a sz k =
     (let s1 = RecursiveLock_Lock s0;
          offset = a - (a AND NOT 3)
      in if total (manager s1) = 2 then (- EBUSY, s1, ctx)
         else if sz = 0 \<or> offset + sz > 4 \<or> k = WATCHPOINT_DISABLED then (- EINVAL, s1, ctx)
         else if GDB_GetWatchpointKind s1 ctx a \<noteq> WATCHPOINT_DISABLED then (- EINVAL, s1, ctx)
         else
           let i = (if kind (arr2_get (watchpoints (manager s1)) 0) = WATCHPOINT_DISABLED
                    then 0 else 1);
               selectMask = push_bit (unat offset) (shl_u32 1 sz - 1);
               (r, s2) = svcSetHardwareBreakPoint s1 (0x100 OR of_nat i) (WCR i selectMask k)
                           (a AND NOT 3);
               (r', s3) = (if R_SUCCEEDED r
                           then svcSetHardwareBreakPoint s2 (4 + of_nat i) BCR (ctx_debug ctx)
                           else (r, s2))
           in if R_SUCCEEDED r' then
                let m = manager s3;
                    w = \<lparr>address = a, size_w = sz, kind = k, debug = ctx_debug ctx\<rparr>;
                    s4 = s3\<lparr>manager := m\<lparr>total := total m + 1,
                                           watchpoints := arr2_set (watchpoints m) i w\<rparr>\<rparr>;
                    ctx' = (store_watchpoint ctx (nbWatchpoints ctx) a)
                             \<lparr>nbWatchpoints := nbWatchpoints ctx + 1\<rparr>
                in (0, RecursiveLock_Unlock s4, ctx')
              else (- EINVAL, RecursiveLock_Unlock s3, ctx))"

definition GDB_RemoveWatchpoint ::
  "sys \<Rightarrow> GDBContext \<Rightarrow> u32 \<Rightarrow> WatchpointKind \<Rightarrow> int \<times> sys \<times> GDBContext" where
  "GDB_RemoveWatchpoint s0 ctx a k =
     (let s1 = RecursiveLock_Lock s0;
          i = scan_slots (manager s1) ctx a 0
      in if i = 2 \<or> (k \<noteq> WATCHPOINT_DISABLED \<and> kind (arr2_get (watchpoints (manager s1)) i) \<noteq> k)
         then (- EINVAL, RecursiveLock_Unlock s1, ctx)
         else
           let s2 = snd (svcSetHardwareBreakPoint s1 (4 + of_nat i) 0 0);
               s3 = snd (svcSetHardwareBreakPoint s2 (0x100 OR of_nat i) 0 0);
               m = manager s3;
               s4 = s3\<lparr>manager := m\<lparr>watchpoints := arr2_set (watchpoints m) i zero_Watchpoint,
                                      total := total m - 1\<rparr>\<rparr>;
               ctx' = (if fst (ctx_watchpoints ctx) = a
                       then ctx\<lparr>ctx_watchpoints := (snd (ctx_watchpoints ctx), 0),
                                nbWatchpoints := nbWatchpoints ctx - 1\<rparr>
                       else if snd (ctx_watchpoints ctx) = a
                       then ctx\<lparr>ctx_watchpoints := (fst (ctx_watchpoints ctx), 0),
                                nbWatchpoints := nbWatchpoints ctx - 1\<rparr>
                       else ctx)
           in (0, RecursiveLock_Unlock s4, ctx'))"

subsection \<open>Sequences of calls\<close>

text \<open>Sessions live in a store indexed by a pointer; a call names the session it is made
  for. \<open>step\<close> performs one call and gives its return code (0 for the \<^verbatim>\<open>void\<close> reset),
  \<open>run\<close> a sequence of calls, collecting the return codes, oldest first.\<close>

record world =
  sysw :: sys
  ctxs :: "nat \<Rightarrow> GDBContext"

datatype call =
  Reset
| Add nat u32 u32 WatchpointKind
| Remove nat u32 WatchpointKind

fun step :: "world \<Rightarrow> call \<Rightarrow> int \<times> world" where
  "step w Reset = (0, w\<lparr>sysw := GDB_ResetWatchpoints (sysw w)\<rparr>)"
| "step w (Add p a sz k) =
     (case GDB_AddWatchpoint (sysw w) (ctxs w p) a sz k of
        (r, s', c') \<Rightarrow> (r, w\<lparr>sysw := s', ctxs := (ctxs w)(p := c')\<rparr>))"
| "step w (Remove p a k) =
     (case GDB_RemoveWatchpoint (sysw w) (ctxs w p) a k of
        (r, s', c') \<Rightarrow> (r, w\<lparr>sysw := s', ctxs := (ctxs w)(p := c')\<rparr>))"

fun run :: "world \<Rightarrow> call list \<Rightarrow> int list \<times> world" where
  "run w [] = ([], w)"
| "run w (c # cs) =
     (case step w c of
        (r, w') \<Rightarrow> (case run w' cs of (rs, w'') \<Rightarrow> (r # rs, w'')))"

text \<open>The states reachable from the state a reset leaves, whatever the sessions are.\<close>

inductive reachable :: "world \<Rightarrow> bool" where
  reachable_reset: "reachable \<lparr>sysw = GDB_ResetWatchpoints s, ctxs = cs\<rparr>"
| reachable_step: "reachable w \<Longrightarrow> step w c = (r, w') \<Longrightarrow> reachable w'"

text \<open>Observations of the outcome of a run: the manager's count, the number of slots
  whose kind is not the sentinel, the slot table, the lock count, the log of kernel calls
  and a session.\<close>

definition occupied :: "Watchpoint \<Rightarrow> bool" where
  "occupied wp = (kind wp \<noteq> WATCHPOINT_DISABLED)"

definition nb_occupied :: "WatchpointManager \<Rightarrow> nat" where
  "nb_occupied m =
     (if occupied (fst (watchpoints m)) then 1 else 0)
       + (if occupied (snd (watchpoints m)) then 1 else 0)"

definition total_of :: "int list \<times> world \<Rightarrow> u32" where
  "total_of x = total (manager (sysw (snd x)))"

definition occupied_of :: "int list \<times> world \<Rightarrow> nat" where
  "occupied_of x = nb_occupied (manager (sysw (snd x)))"

definition slots_of :: "int list \<times> world \<Rightarrow> Watchpoint \<times> Watchpoint" where
  "slots_of x = watchpoints (manager (sysw (snd x)))"

definition lock_of :: "int list \<times> world \<Rightarrow> nat" where
  "lock_of x = lockCount (sysw (snd x))"

definition log_of :: "int list \<times> world \<Rightarrow> (u32 \<times> u32 \<times> u32 \<times> Result) list" where
  "log_of x = svcLog (sysw (snd x))"

definition ctx_of :: "nat \<Rightarrow> int list \<times> world \<Rightarrow> GDBContext" where
  "ctx_of p x = ctxs (snd x) p"

text \<open>A concrete starting point: the zero-initialised globals of a freshly loaded
  module, a kernel whose calls all succeed, and sessions with empty caches, session
  \<open>p\<close> holding the handle \<open>0x10 + p\<close>.\<close>

definition sys_boot :: sys where
  "sys_boot = \<lparr>manager = zero_WatchpointManager, lockInitialized = False, lockCount = 0,
               svcLog = [], svcResult = (\<lambda>n. 0)\<rparr>"

definition ctx_boot :: "nat \<Rightarrow> GDBContext" where
  "ctx_boot p = \<lparr>ctx_debug = 0x10 + of_nat p, nbWatchpoints = 0, ctx_watchpoints = (0, 0),
                ctx_overrun = []\<rparr>"

definition w_boot :: world where
  "w_boot = \<lparr>sysw = sys_boot, ctxs = ctx_boot\<rparr>"

text \<open>The test the scan applies to one slot: it stops at a slot whose stored address is
  the requested one or whose stored owner is the session's handle.\<close>

definition slot_matches :: "Watchpoint \<Rightarrow> GDBContext \<Rightarrow> u32 \<Rightarrow> bool" where
  "slot_matches wp ctx a = (address wp = a \<or> debug wp = ctx_debug ctx)"

text \<open>Every free slot holds the all-zero bytes \<^verbatim>\<open>memset\<close> wrote.\<close>

definition free_slots_zeroed :: "WatchpointManager \<Rightarrow> bool" where
  "free_slots_zeroed m =
     ((occupied (fst (watchpoints m)) \<or> fst (watchpoints m) = zero_Watchpoint)
      \<and> (occupied (snd (watchpoints m)) \<or> snd (watchpoints m) = zero_Watchpoint))"

text \<open>Worlds reached by a few calls from \<open>w_boot\<close>: with session 0 watching
  \<open>0x1000\<close>; with sessions 0 and 1 holding both slots.\<close>

definition w_one :: world where
  "w_one = snd (run w_boot [Reset, Add 0 0x1000 4 WATCHPOINT_WRITE])"

definition w_two :: world where
  "w_two = snd (run w_boot [Reset, Add 0 0x1000 4 WATCHPOINT_READWRITE,
                            Add 1 0x2000 4 WATCHPOINT_WRITE])"


section \<open>Properties\<close>

lemmas eval_defs =
  GDB_AddWatchpoint_def GDB_RemoveWatchpoint_def GDB_ResetWatchpoints_def
  GDB_GetWatchpointKind_def RecursiveLock_Lock_def RecursiveLock_Unlock_def
  RecursiveLock_Init_def svcSetHardwareBreakPoint_def scan_slots.simps arr2_get_def
  arr2_set_def store_watchpoint_def shl_u32_def zero_Watchpoint_def zero_WatchpointManager_def
  sys_boot_def ctx_boot_def w_boot_def R_SUCCEEDED_def EBUSY_def EINVAL_def BCR_def WCR_def
  Let_def nb_occupied_def occupied_def

subsection \<open>Words\<close>

lemma offset_and3: "(a::u32) - (a AND NOT 3) = a AND 3"
proof -
  have "a - (a AND NOT 3) = a AND NOT (a AND NOT 3)"
    by (rule disjunctive_diff) (simp add: bit_and_iff)
  also have "\<dots> = a AND 3"
    by (rule bit_eqI) (auto simp add: bit_and_iff bit_not_iff bit_or_iff)
  finally show ?thesis .
qed

lemma offset_and3_m4: "(a::u32) - (a AND - 4) = a AND 3"
  using offset_and3 [of a] by simp

lemma and3_less: "unat ((a::u32) AND 3) < 4"
proof -
  have "a AND 3 = take_bit 2 a"
    by (simp add: take_bit_eq_mask mask_eq_exp_minus_1)
  moreover have "take_bit 2 (unat a) < 2 ^ 2"
    by (rule take_bit_nat_less_exp)
  ultimately show ?thesis
    by (simp add: unsigned_take_bit_eq)
qed

lemma word_of_unat: "unat (x::u32) = n \<Longrightarrow> x = of_nat n"
  by auto

lemma word_small_cases:
  assumes "unat (x::u32) < 5"
  shows "x = 0 \<or> x = 1 \<or> x = 2 \<or> x = 3 \<or> x = 4"
proof -
  from assms have "unat x = 0 \<or> unat x = 1 \<or> unat x = 2 \<or> unat x = 3 \<or> unat x = 4"
    by arith
  then show ?thesis
    by (auto dest!: word_of_unat)
qed

lemma and3_cases: "(a::u32) AND 3 = 0 \<or> a AND 3 = 1 \<or> a AND 3 = 2 \<or> a AND 3 = 3"
  using and3_less [of a] word_small_cases [of "a AND 3"] by auto

text \<open>With a shift count below 32, the region test of the source passes exactly when
  offset and size add up to at most 4 without wrapping.\<close>

lemma region_sum:
  assumes "unat (sz::u32) < 32"
  shows "unat ((a AND 3) + sz) = unat ((a::u32) AND 3) + unat sz"
proof -
  have "unat (a AND 3) + unat sz < 2 ^ 32"
    using and3_less [of a] assms by simp
  then show ?thesis
    by (simp add: unat_add_lem [THEN iffD1])
qed

lemma region_fits:
  assumes "\<not> (a - (a AND NOT 3) + sz > 4)" and "unat sz < 32"
  shows "unat (a AND 3) + unat (sz::u32) \<le> 4"
proof -
  have "(a AND 3) + sz \<le> 4"
    using assms(1) by (simp add: offset_and3_m4 not_less)
  then show ?thesis
    using region_sum [OF assms(2), of a] by (simp add: word_le_nat_alt)
qed



subsection \<open>The scan and the lock\<close>

lemma scan_slots_from_0:
  "scan_slots m ctx a 0 =
     (if slot_matches (fst (watchpoints m)) ctx a then 0
      else if slot_matches (snd (watchpoints m)) ctx a then 1 else 2)"
  by (simp add: scan_slots.simps [of m ctx a 0] scan_slots.simps [of m ctx a "Suc 0"]
      scan_slots.simps [of m ctx a "Suc (Suc 0)"] arr2_get_def slot_matches_def)

lemma get_kind_cases:
  "GDB_GetWatchpointKind s ctx a =
     (if slot_matches (fst (watchpoints (manager s))) ctx a
      then kind (fst (watchpoints (manager s)))
      else if slot_matches (snd (watchpoints (manager s))) ctx a
      then kind (snd (watchpoints (manager s)))
      else WATCHPOINT_DISABLED)"
  by (simp add: GDB_GetWatchpointKind_def scan_slots_from_0 arr2_get_def)

lemma unlock_lock: "RecursiveLock_Unlock (RecursiveLock_Lock s) = s"
  by (simp add: RecursiveLock_Unlock_def RecursiveLock_Lock_def)

lemma get_kind_lock:
  "GDB_GetWatchpointKind (RecursiveLock_Lock s) ctx a = GDB_GetWatchpointKind s ctx a"
  by (simp add: GDB_GetWatchpointKind_def RecursiveLock_Lock_def Let_def)

lemma get_kind_lockCount:
  "GDB_GetWatchpointKind (s\<lparr>lockCount := n\<rparr>) ctx a = GDB_GetWatchpointKind s ctx a"
  by (simp add: GDB_GetWatchpointKind_def Let_def)

subsection \<open>Reachable worlds\<close>

lemma reset_reachable: "reachable (w\<lparr>sysw := GDB_ResetWatchpoints (sysw w)\<rparr>)"
proof -
  have eq: "w\<lparr>sysw := GDB_ResetWatchpoints (sysw w)\<rparr>
          = \<lparr>sysw = GDB_ResetWatchpoints (sysw w), ctxs = ctxs w\<rparr>"
    by (cases w) simp
  show ?thesis
    unfolding eq by (rule reachable_reset)
qed

lemma run_reachable: "reachable w \<Longrightarrow> run w cs = (rs, w') \<Longrightarrow> reachable w'"
proof (induction cs arbitrary: w rs)
  case Nil
  then show ?case by simp
next
  case (Cons c cs)
  obtain r w1 where st: "step w c = (r, w1)"
    by (cases "step w c")
  obtain rs' w2 where rest: "run w1 cs = (rs', w2)"
    by (cases "run w1 cs")
  from Cons.prems(2) st rest have "w2 = w'"
    by simp
  moreover from Cons.prems(1) st have "reachable w1"
    by (rule reachable_step)
  ultimately show ?case
    using rest Cons.IH by blast
qed

lemma run_reset_reachable: "run w (Reset # cs) = (rs, w') \<Longrightarrow> reachable w'"
proof -
  assume r: "run w (Reset # cs) = (rs, w')"
  obtain rs' w2 where rest: "run (w\<lparr>sysw := GDB_ResetWatchpoints (sysw w)\<rparr>) cs = (rs', w2)"
    by (cases "run (w\<lparr>sysw := GDB_ResetWatchpoints (sysw w)\<rparr>) cs")
  with r have "w2 = w'" by simp
  with rest reset_reachable [of w] show ?thesis
    using run_reachable by blast
qed

lemma w_one_reachable: "reachable w_one"
proof -
  have "run w_boot [Reset, Add 0 0x1000 4 WATCHPOINT_WRITE]
          = (fst (run w_boot [Reset, Add 0 0x1000 4 WATCHPOINT_WRITE]), w_one)"
    by (simp add: w_one_def)
  then show ?thesis
    by (rule run_reset_reachable)
qed



subsection \<open>The count of the manager\<close>

text \<open>Claim C1 says that \<open>total\<close> always equals the number of slots whose kind is not
  \<open>Disabled\<close>, stays within 0, 1, 2, and that a removal never decrements it for a slot
  that is already free. The code does otherwise: right after a reset, removing address 0
  with kind \<open>Disabled\<close> (any kind) on behalf of any session stops the scan at slot 0,
  whose zeroed address equals the request, passes the kind test, returns 0 and decrements
  \<open>total\<close> from 0 to \<open>0xFFFFFFFF\<close>, while no slot is occupied.\<close>

theorem C1_remove_free_slot_wraps_total:
  "fst (run w_boot [Reset, Remove 0 0 WATCHPOINT_DISABLED]) = [0, 0]
   \<and> total_of (run w_boot [Reset, Remove 0 0 WATCHPOINT_DISABLED]) = 0xFFFFFFFF
   \<and> occupied_of (run w_boot [Reset, Remove 0 0 WATCHPOINT_DISABLED]) = 0"
  by (simp add: eval_defs total_of_def occupied_of_def)

subsection \<open>The lock\<close>

text \<open>Claim C4 says that every call acquires the lock and releases it again on every
  return path, so that the acquisition count after the call is the count before it. The
  three early returns of \<open>GDB_AddWatchpoint\<close> come after the acquisition and before any
  release: after a reset (count 0), an addition with size 0 returns \<open>-EINVAL\<close> and leaves
  the count at 1; with both slots taken, a further addition returns \<open>-EBUSY\<close> and leaves
  one more acquisition behind; so does the addition of a duplicate.\<close>

theorem C4_add_early_return_keeps_lock:
  "lock_of (run w_boot [Reset]) = 0
   \<and> fst (run w_boot [Reset, Add 0 0x1000 0 WATCHPOINT_WRITE]) = [0, - EINVAL]
   \<and> lock_of (run w_boot [Reset, Add 0 0x1000 0 WATCHPOINT_WRITE]) = 1
   \<and> lock_of (run w_boot [Reset, Add 0 0x1000 4 WATCHPOINT_WRITE]) = 0
   \<and> fst (run w_boot [Reset, Add 0 0x1000 4 WATCHPOINT_WRITE,
        Add 1 0x1000 1 WATCHPOINT_READ]) = [0, 0, - EINVAL]
   \<and> lock_of (run w_boot [Reset, Add 0 0x1000 4 WATCHPOINT_WRITE,
        Add 1 0x1000 1 WATCHPOINT_READ]) = 1
   \<and> fst (run w_boot [Reset, Add 0 0x1000 4 WATCHPOINT_WRITE,
        Add 1 0x2000 4 WATCHPOINT_WRITE, Add 2 0x3000 4 WATCHPOINT_WRITE])
       = [0, 0, 0, - EBUSY]
   \<and> lock_of (run w_boot [Reset, Add 0 0x1000 4 WATCHPOINT_WRITE,
        Add 1 0x2000 4 WATCHPOINT_WRITE, Add 2 0x3000 4 WATCHPOINT_WRITE]) = 1"
  by (simp add: eval_defs lock_of_def)

subsection \<open>The session's cache\<close>

text \<open>Claim C5 says that a session's live count never exceeds 2 and that the append made
  by a successful addition always writes inside the 2-entry cache. A removal frees the
  slot the scan stops at, which may match by owner only, but it decrements the session's
  count only when the requested address is in the cache. So a session that adds
  \<open>0x1000\<close>, removes \<open>0x2000\<close>, adds \<open>0x3000\<close> and removes \<open>0x4000\<close> (all four
  calls return 0) is left with no slot and a count of 2. Its next addition is accepted by
  every check and returns 0: it stores \<open>0x5000\<close> at index 2, past the end of the cache,
  and raises the count to 3.\<close>

theorem C5_append_past_the_cache:
  "fst (run w_boot [Reset, Add 0 0x1000 4 WATCHPOINT_WRITE,
       Remove 0 0x2000 WATCHPOINT_DISABLED, Add 0 0x3000 4 WATCHPOINT_WRITE,
       Remove 0 0x4000 WATCHPOINT_DISABLED]) = [0, 0, 0, 0, 0]
   \<and> ctx_of 0 (run w_boot [Reset, Add 0 0x1000 4 WATCHPOINT_WRITE,
       Remove 0 0x2000 WATCHPOINT_DISABLED, Add 0 0x3000 4 WATCHPOINT_WRITE,
       Remove 0 0x4000 WATCHPOINT_DISABLED])
      = \<lparr>ctx_debug = 0x10, nbWatchpoints = 2, ctx_watchpoints = (0x1000, 0x3000),
          ctx_overrun = []\<rparr>
   \<and> occupied_of (run w_boot [Reset, Add 0 0x1000 4 WATCHPOINT_WRITE,
       Remove 0 0x2000 WATCHPOINT_DISABLED, Add 0 0x3000 4 WATCHPOINT_WRITE,
       Remove 0 0x4000 WATCHPOINT_DISABLED]) = 0
   \<and> fst (run w_boot [Reset, Add 0 0x1000 4 WATCHPOINT_WRITE,
       Remove 0 0x2000 WATCHPOINT_DISABLED, Add 0 0x3000 4 WATCHPOINT_WRITE,
       Remove 0 0x4000 WATCHPOINT_DISABLED, Add 0 0x5000 4 WATCHPOINT_WRITE])
      = [0, 0, 0, 0, 0, 0]
   \<and> ctx_of 0 (run w_boot [Reset, Add 0 0x1000 4 WATCHPOINT_WRITE,
       Remove 0 0x2000 WATCHPOINT_DISABLED, Add 0 0x3000 4 WATCHPOINT_WRITE,
       Remove 0 0x4000 WATCHPOINT_DISABLED, Add 0 0x5000 4 WATCHPOINT_WRITE])
      = \<lparr>ctx_debug = 0x10, nbWatchpoints = 3, ctx_watchpoints = (0x1000, 0x3000),
          ctx_overrun = [(2, 0x5000)]\<rparr>"
  by (simp add: eval_defs ctx_of_def occupied_of_def)

subsection \<open>Adding and removing again\<close>

text \<open>Claim C10 says that a successful \<open>Add(s, A, 1, Write)\<close> followed at once by
  \<open>Remove(s, A, Write)\<close> gives back the state before the pair: the same total, the slot
  zeroed, the session's cache and live count as they were. The removal compares the
  requested address with both cache entries without looking at the live count, so an
  empty entry, which holds 0, counts as a hit for address 0. After a reset, session 0
  adds \<open>0x1000\<close> and removes address 0: the slot is found by owner and freed, the empty
  second entry is taken for the hit, and the session is left with count 0 and
  \<open>0x1000\<close> still in its first entry. From that state the pair \<open>Add(0x2000, 1, Write)\<close>,
  \<open>Remove(0x2000, Write)\<close> succeeds twice and leaves the cache \<open>(0, 0)\<close>, not the
  \<open>(0x1000, 0)\<close> it started from.

  The slot table can be hit as well. A removal of address 0 right after a reset wraps
  \<open>total\<close> to \<open>0xFFFFFFFF\<close>; two additions by sessions 1 and 2 then fill both slots
  while \<open>total\<close> is 1. The pair \<open>Add(0x3000, 1, Write)\<close>, \<open>Remove(0x3000, Write)\<close>
  of session 3 succeeds twice: the addition overwrites slot 1, the removal zeroes it, and
  the watchpoint of session 2 that was there before the pair is gone.\<close>

theorem C10_round_trip_changes_cache:
  "ctx_of 0 (run w_boot [Reset, Add 0 0x1000 1 WATCHPOINT_WRITE,
       Remove 0 0 WATCHPOINT_DISABLED])
      = \<lparr>ctx_debug = 0x10, nbWatchpoints = 0, ctx_watchpoints = (0x1000, 0),
          ctx_overrun = []\<rparr>
   \<and> fst (run w_boot [Reset, Add 0 0x1000 1 WATCHPOINT_WRITE,
       Remove 0 0 WATCHPOINT_DISABLED, Add 0 0x2000 1 WATCHPOINT_WRITE,
       Remove 0 0x2000 WATCHPOINT_WRITE]) = [0, 0, 0, 0, 0]
   \<and> ctx_of 0 (run w_boot [Reset, Add 0 0x1000 1 WATCHPOINT_WRITE,
       Remove 0 0 WATCHPOINT_DISABLED, Add 0 0x2000 1 WATCHPOINT_WRITE,
       Remove 0 0x2000 WATCHPOINT_WRITE])
      = \<lparr>ctx_debug = 0x10, nbWatchpoints = 0, ctx_watchpoints = (0, 0), ctx_overrun = []\<rparr>
   \<and> slots_of (run w_boot [Reset, Remove 0 0 WATCHPOINT_DISABLED,
       Add 1 0x1000 1 WATCHPOINT_WRITE, Add 2 0x2000 1 WATCHPOINT_WRITE])
      = (\<lparr>address = 0x1000, size_w = 1, kind = WATCHPOINT_WRITE, debug = 0x11\<rparr>,
         \<lparr>address = 0x2000, size_w = 1, kind = WATCHPOINT_WRITE, debug = 0x12\<rparr>)
   \<and> fst (run w_boot [Reset, Remove 0 0 WATCHPOINT_DISABLED,
       Add 1 0x1000 1 WATCHPOINT_WRITE, Add 2 0x2000 1 WATCHPOINT_WRITE,
       Add 3 0x3000 1 WATCHPOINT_WRITE, Remove 3 0x3000 WATCHPOINT_WRITE])
      = [0, 0, 0, 0, 0, 0]
   \<and> slots_of (run w_boot [Reset, Remove 0 0 WATCHPOINT_DISABLED,
       Add 1 0x1000 1 WATCHPOINT_WRITE, Add 2 0x2000 1 WATCHPOINT_WRITE,
       Add 3 0x3000 1 WATCHPOINT_WRITE, Remove 3 0x3000 WATCHPOINT_WRITE])
      = (\<lparr>address = 0x1000, size_w = 1, kind = WATCHPOINT_WRITE, debug = 0x11\<rparr>,
         zero_Watchpoint)"
  by (simp add: eval_defs ctx_of_def slots_of_def)

subsection \<open>Removal of an address that was not added\<close>

text \<open>Claim C2 says that removing, with kind \<open>Disabled\<close>, an address that no occupied slot
  stores fails with \<open>InvalidArgument\<close> and changes nothing. The scan of the removal goes
  on while address and owner both differ, so it stops at a slot that only has the owner
  in common with the request. After a reset and \<open>Add(s, 0x1000, 4, Write)\<close>, slot 0 holds
  \<open>0x1000\<close> and nothing stores \<open>0x2000\<close>; yet \<open>Remove(s, 0x2000, Disabled)\<close> returns
  0, frees slot 0 and takes \<open>total\<close> to 0, while the session's cache, which is searched
  for the requested address, still lists \<open>0x1000\<close> with a live count of 1.\<close>

theorem C2_remove_frees_other_address:
  "slots_of (run w_boot [Reset, Add 0 0x1000 4 WATCHPOINT_WRITE])
      = (\<lparr>address = 0x1000, size_w = 4, kind = WATCHPOINT_WRITE, debug = 0x10\<rparr>,
         zero_Watchpoint)
   \<and> total_of (run w_boot [Reset, Add 0 0x1000 4 WATCHPOINT_WRITE]) = 1
   \<and> fst (run w_boot [Reset, Add 0 0x1000 4 WATCHPOINT_WRITE,
        Remove 0 0x2000 WATCHPOINT_DISABLED]) = [0, 0, 0]
   \<and> slots_of (run w_boot [Reset, Add 0 0x1000 4 WATCHPOINT_WRITE,
        Remove 0 0x2000 WATCHPOINT_DISABLED]) = (zero_Watchpoint, zero_Watchpoint)
   \<and> total_of (run w_boot [Reset, Add 0 0x1000 4 WATCHPOINT_WRITE,
        Remove 0 0x2000 WATCHPOINT_DISABLED]) = 0
   \<and> ctx_of 0 (run w_boot [Reset, Add 0 0x1000 4 WATCHPOINT_WRITE,
        Remove 0 0x2000 WATCHPOINT_DISABLED])
      = \<lparr>ctx_debug = 0x10, nbWatchpoints = 1, ctx_watchpoints = (0x1000, 0),
          ctx_overrun = []\<rparr>"
  by (simp add: eval_defs slots_of_def total_of_def ctx_of_def)

text \<open>Where the removal does fail without a trace: when neither slot stores the address
  and neither slot's stored owner is the session's handle, it returns \<open>-EINVAL\<close> and
  the whole state, lock count and log of kernel calls included, is as before.\<close>

lemma remove_without_match:
  assumes "\<not> slot_matches (fst (watchpoints (manager s))) ctx a"
    and "\<not> slot_matches (snd (watchpoints (manager s))) ctx a"
  shows "GDB_RemoveWatchpoint s ctx a k = (- EINVAL, s, ctx)"
proof -
  have "scan_slots (manager (RecursiveLock_Lock s)) ctx a 0 = 2"
    using assms by (simp add: scan_slots_from_0 RecursiveLock_Lock_def)
  then show ?thesis
    by (simp add: GDB_RemoveWatchpoint_def Let_def unlock_lock)
qed

subsection \<open>Lookup\<close>

text \<open>Claim C7: \<open>GetKind(session, address)\<close> returns the kind stored in the
  lowest-indexed slot whose stored address is the requested one or whose stored owner is
  the session's handle, and \<open>Disabled\<close> when neither slot matches. The function only
  reads the manager; its result is a kind and nothing else, so no manager, session or
  hardware state is modified.\<close>

theorem C7_get_kind_first_match:
  "(\<forall>i<2. slot_matches (arr2_get (watchpoints (manager s)) i) ctx a
           \<and> (\<forall>j<i. \<not> slot_matches (arr2_get (watchpoints (manager s)) j) ctx a)
       \<longrightarrow> GDB_GetWatchpointKind s ctx a = kind (arr2_get (watchpoints (manager s)) i))
   \<and> ((\<forall>i<2. \<not> slot_matches (arr2_get (watchpoints (manager s)) i) ctx a)
       \<longrightarrow> GDB_GetWatchpointKind s ctx a = WATCHPOINT_DISABLED)"
proof (intro conjI allI impI)
  fix i :: nat
  assume "i < 2"
    and m: "slot_matches (arr2_get (watchpoints (manager s)) i) ctx a
            \<and> (\<forall>j<i. \<not> slot_matches (arr2_get (watchpoints (manager s)) j) ctx a)"
  then consider "i = 0" | "i = 1" by arith
  then show "GDB_GetWatchpointKind s ctx a = kind (arr2_get (watchpoints (manager s)) i)"
  proof cases
    case 1
    with m show ?thesis by (simp add: get_kind_cases arr2_get_def)
  next
    case 2
    with m have "\<not> slot_matches (arr2_get (watchpoints (manager s)) 0) ctx a" by simp
    with 2 m show ?thesis by (simp add: get_kind_cases arr2_get_def)
  qed
next
  assume none: "\<forall>i<2. \<not> slot_matches (arr2_get (watchpoints (manager s)) i) ctx a"
  then have "\<not> slot_matches (arr2_get (watchpoints (manager s)) 0) ctx a"
    and "\<not> slot_matches (arr2_get (watchpoints (manager s)) 1) ctx a"
    by simp_all
  then show "GDB_GetWatchpointKind s ctx a = WATCHPOINT_DISABLED"
    by (simp add: get_kind_cases arr2_get_def)
qed

theorem C7_get_kind_first_match_witness:
  "GDB_GetWatchpointKind (sysw w_two) (ctxs w_two 1) 0x3000 = WATCHPOINT_WRITE
   \<and> GDB_GetWatchpointKind (sysw w_two) (ctxs w_two 2) 0x3000 = WATCHPOINT_DISABLED"
proof -
  have a: "(1::nat) < 2
           \<and> slot_matches (arr2_get (watchpoints (manager (sysw w_two))) 1) (ctxs w_two 1) 0x3000
           \<and> (\<forall>j<1. \<not> slot_matches (arr2_get (watchpoints (manager (sysw w_two))) j)
                         (ctxs w_two 1) 0x3000)"
    by (simp add: w_two_def eval_defs slot_matches_def)
  have k: "kind (arr2_get (watchpoints (manager (sysw w_two))) 1) = WATCHPOINT_WRITE"
    by (simp add: w_two_def eval_defs)
  have b: "\<forall>i<2. \<not> slot_matches (arr2_get (watchpoints (manager (sysw w_two))) i)
                     (ctxs w_two 2) 0x3000"
    by (simp add: w_two_def eval_defs slot_matches_def less_2_cases_iff)
  have r1: "GDB_GetWatchpointKind (sysw w_two) (ctxs w_two 1) 0x3000
              = kind (arr2_get (watchpoints (manager (sysw w_two))) 1)"
    using C7_get_kind_first_match [of "sysw w_two" "ctxs w_two 1" "0x3000"] a by blast
  have r2: "GDB_GetWatchpointKind (sysw w_two) (ctxs w_two 2) 0x3000 = WATCHPOINT_DISABLED"
    using C7_get_kind_first_match [of "sysw w_two" "ctxs w_two 2" "0x3000"] b by blast
  show ?thesis
    using r1 r2 k by simp
qed

subsection \<open>The order of the checks in an addition\<close>




subsection \<open>The hardware writes of an addition\<close>

lemma BCR_value: "BCR = 0x3001E7"
  by (simp add: BCR_def)


lemma WCR_value:
  assumes "(sz::u32) \<noteq> 0" and "unat ((a::u32) AND 3) + unat sz \<le> 4" and "i = 0 \<or> i = 1"
  shows "unat (WCR i (push_bit (unat (a AND 3)) (shl_u32 1 sz - 1)) k)
          = 0x100000 + 0x10000 * (4 + i) + 0x20 * ((2 ^ unat sz - 1) * 2 ^ unat (a AND 3))
            + 8 * unat (kind_u32 k) + 4 + 1"
proof -
  have "unat sz < 5" using assms(2) by arith
  then have sz: "sz = 1 \<or> sz = 2 \<or> sz = 3 \<or> sz = 4"
    using word_small_cases [of sz] assms(1) by simp
  note off = and3_cases [of a]
  show ?thesis
    using assms(3) sz off assms(2)
    by (cases k) (auto simp add: WCR_def shl_u32_def)
qed

text \<open>What a successful addition did, read off the definition: exactly two kernel calls,
  both successful, the watchpoint pair first.\<close>

lemma add_success_log:
  assumes "GDB_AddWatchpoint s ctx a sz k = (0, s', ctx')"
    and "i = (if kind (fst (watchpoints (manager s))) = WATCHPOINT_DISABLED then 0 else 1)"
  shows "svcLog s' = svcLog s @
           [(0x100 OR of_nat i, WCR i (push_bit (unat (a AND 3)) (shl_u32 1 sz - 1)) k,
               a AND NOT 3, svcResult s (length (svcLog s))),
            (4 + of_nat i, BCR, ctx_debug ctx, svcResult s (Suc (length (svcLog s))))]
         \<and> 0 \<le> svcResult s (length (svcLog s)) \<and> 0 \<le> svcResult s (Suc (length (svcLog s)))
         \<and> sz \<noteq> 0 \<and> \<not> (a - (a AND NOT 3) + sz > 4)"
  using assms
  by (auto simp add: GDB_AddWatchpoint_def Let_def EBUSY_def EINVAL_def
      offset_and3_m4 svcSetHardwareBreakPoint_def RecursiveLock_Lock_def RecursiveLock_Unlock_def
      R_SUCCEEDED_def arr2_get_def
      split: if_splits prod.splits)

text \<open>For a size below 32, which the region test then bounds by 4, the two calls are the
  ones of the specification: the watchpoint pair \<open>0x100 | i\<close> gets the aligned address
  and a control word that is the sum of its fields (linked flag at bit 20, breakpoint-pair
  index \<open>4 + i\<close> from bit 16, byte-select mask from bit 5, kind from bit 3, user mode
  from bit 1, enabled at bit 0), the breakpoint pair \<open>4 + i\<close> gets the session's handle
  and \<open>0x3001E7\<close>.\<close>

lemma add_success_programs_both_pairs:
  assumes "GDB_AddWatchpoint s ctx a sz k = (0, s', ctx')"
    and "i = (if kind (fst (watchpoints (manager s))) = WATCHPOINT_DISABLED then 0 else 1)"
    and "unat sz < 32"
  shows "\<exists>wcr. svcLog s' = svcLog s @
           [(0x100 OR of_nat i, wcr, a AND NOT 3, svcResult s (length (svcLog s))),
            (4 + of_nat i, 0x3001E7, ctx_debug ctx, svcResult s (Suc (length (svcLog s))))]
         \<and> 0 \<le> svcResult s (length (svcLog s)) \<and> 0 \<le> svcResult s (Suc (length (svcLog s)))
         \<and> 1 \<le> unat sz \<and> unat (a AND 3) + unat sz \<le> 4
         \<and> unat wcr = 0x100000 + 0x10000 * (4 + i)
                        + 0x20 * ((2 ^ unat sz - 1) * 2 ^ unat (a AND 3))
                        + 8 * unat (kind_u32 k) + 4 + 1"
proof -
  note log = add_success_log [OF assms(1,2)]
  from log have nz: "sz \<noteq> 0" by simp
  from log assms(3) have fits: "unat (a AND 3) + unat sz \<le> 4"
    using region_fits [of a sz] by simp
  have i: "i = 0 \<or> i = 1" using assms(2) by simp
  have pos: "1 \<le> unat sz"
    using nz by (simp add: unat_gt_0 Suc_le_eq)
  show ?thesis
    using log fits pos WCR_value [OF nz fits i, of k] by (simp add: BCR_value)
qed

text \<open>Claim C9 says that every successful addition programs the watchpoint pair with a
  control word made of the linked flag, the linked breakpoint-pair index \<open>4 + id\<close>, the
  4-bit byte-select mask \<open>((1 << size) - 1) << offset\<close>, the kind, user mode only and
  the enabled flag, and then the breakpoint pair. The region test adds offset and size in
  32 bits, so a size of \<open>2^32 - 3\<close> or more can pass it: for address \<open>0x1003\<close> and
  size \<open>0xFFFFFFFF\<close> the sum wraps to 2. After a reset that addition returns 0 and
  makes its two kernel calls in the stated order, but the mask is \<open>0xFFFFFFF8\<close>, and
  shifted to bit 5 it runs over the fields above it: the control word written to pair
  \<open>0x100\<close> is \<open>0xFFFFFF15\<close>, whose linked-index field (bits 16 to 19) reads 15
  where the claim has 4, and whose byte-select field (bits 5 to 8) reads 8. The slot
  records the size \<open>0xFFFFFFFF\<close>.\<close>

theorem C9_wrapped_size_malformed_control_word:
  "fst (run w_boot [Reset, Add 0 0x1003 0xFFFFFFFF WATCHPOINT_WRITE]) = [0, 0]
   \<and> log_of (run w_boot [Reset, Add 0 0x1003 0xFFFFFFFF WATCHPOINT_WRITE])
      = [(4, 0, 0, 0), (0x100, 0, 0, 0), (5, 0, 0, 0), (0x101, 0, 0, 0),
         (0x100, 0xFFFFFF15, 0x1000, 0), (4, 0x3001E7, 0x10, 0)]
   \<and> take_bit 4 (drop_bit 16 (0xFFFFFF15 :: u32)) = 15
   \<and> take_bit 4 (drop_bit 5 (0xFFFFFF15 :: u32)) = 8
   \<and> slots_of (run w_boot [Reset, Add 0 0x1003 0xFFFFFFFF WATCHPOINT_WRITE])
      = (\<lparr>address = 0x1003, size_w = 0xFFFFFFFF, kind = WATCHPOINT_WRITE, debug = 0x10\<rparr>,
         zero_Watchpoint)"
  by (simp add: eval_defs log_of_def slots_of_def mask_eq_exp_minus_1)




subsection \<open>A second watchpoint for the same session\<close>

text \<open>Claim C6 says that a session owning one live watchpoint can add a second one when a
  slot is free and the request is valid for an address stored nowhere. The duplicate
  detection of \<open>Add\<close>, commented as disallowing duplicate watchpoints, is the lookup
  that stops at a slot with the same address or the same owner, so it takes the
  session's own slot for a duplicate: after a reset and \<open>Add(s, 0x1000, 4, Write)\<close>,
  with slot 1 free, \<open>Add(s, 0x2000, 4, Write)\<close> returns \<open>-EINVAL\<close> and the session
  stays at one watchpoint. The refusal is not even uniform: when session 1 owns slot 1 and
  slot 0 has been freed, its request for address 0 stops the lookup at the zeroed slot 0,
  passes, and gives it both slots.\<close>

theorem C6_second_add_refused:
  "fst (run w_boot [Reset, Add 0 0x1000 4 WATCHPOINT_WRITE,
        Add 0 0x2000 4 WATCHPOINT_WRITE]) = [0, 0, - EINVAL]
   \<and> slots_of (run w_boot [Reset, Add 0 0x1000 4 WATCHPOINT_WRITE,
        Add 0 0x2000 4 WATCHPOINT_WRITE])
      = (\<lparr>address = 0x1000, size_w = 4, kind = WATCHPOINT_WRITE, debug = 0x10\<rparr>,
         zero_Watchpoint)
   \<and> total_of (run w_boot [Reset, Add 0 0x1000 4 WATCHPOINT_WRITE,
        Add 0 0x2000 4 WATCHPOINT_WRITE]) = 1
   \<and> ctx_of 0 (run w_boot [Reset, Add 0 0x1000 4 WATCHPOINT_WRITE,
        Add 0 0x2000 4 WATCHPOINT_WRITE])
      = \<lparr>ctx_debug = 0x10, nbWatchpoints = 1, ctx_watchpoints = (0x1000, 0),
          ctx_overrun = []\<rparr>
   \<and> fst (run w_boot [Reset, Add 0 0x1000 4 WATCHPOINT_WRITE,
        Add 1 0x2000 4 WATCHPOINT_WRITE, Remove 0 0x1000 WATCHPOINT_WRITE,
        Add 1 0 1 WATCHPOINT_WRITE]) = [0, 0, 0, 0, 0]
   \<and> slots_of (run w_boot [Reset, Add 0 0x1000 4 WATCHPOINT_WRITE,
        Add 1 0x2000 4 WATCHPOINT_WRITE, Remove 0 0x1000 WATCHPOINT_WRITE,
        Add 1 0 1 WATCHPOINT_WRITE])
      = (\<lparr>address = 0, size_w = 1, kind = WATCHPOINT_WRITE, debug = 0x11\<rparr>,
         \<lparr>address = 0x2000, size_w = 4, kind = WATCHPOINT_WRITE, debug = 0x11\<rparr>)"
  by (simp add: eval_defs slots_of_def total_of_def ctx_of_def)

text \<open>How far the refusal goes. Free slots stay zeroed in every reachable state, so for
  a non-zero handle and a non-zero address the lookup made for a session that owns an
  occupied slot ends at an occupied slot, and the addition is refused.\<close>

lemma reset_free_slots_zeroed: "free_slots_zeroed (manager (GDB_ResetWatchpoints s))"
  by (simp add: GDB_ResetWatchpoints_def Let_def svcSetHardwareBreakPoint_def
      RecursiveLock_Lock_def RecursiveLock_Unlock_def RecursiveLock_Init_def
      free_slots_zeroed_def zero_WatchpointManager_def)

lemma add_free_slots_zeroed:
  assumes "free_slots_zeroed (manager s)"
    and "GDB_AddWatchpoint s ctx a sz k = (r, s', ctx')"
  shows "free_slots_zeroed (manager s')"
  using assms
  by (auto simp add: GDB_AddWatchpoint_def Let_def svcSetHardwareBreakPoint_def
      RecursiveLock_Lock_def RecursiveLock_Unlock_def free_slots_zeroed_def occupied_def
      arr2_set_def arr2_get_def
      split: if_splits prod.splits)

lemma remove_free_slots_zeroed:
  assumes "free_slots_zeroed (manager s)"
    and "GDB_RemoveWatchpoint s ctx a k = (r, s', ctx')"
  shows "free_slots_zeroed (manager s')"
  using assms
  by (auto simp add: GDB_RemoveWatchpoint_def Let_def svcSetHardwareBreakPoint_def
      RecursiveLock_Lock_def RecursiveLock_Unlock_def free_slots_zeroed_def
      arr2_set_def
      split: if_splits)

lemma reachable_free_slots_zeroed: "reachable w \<Longrightarrow> free_slots_zeroed (manager (sysw w))"
proof (induction rule: reachable.induct)
  case (reachable_reset s cs)
  show ?case by (simp add: reset_free_slots_zeroed)
next
  case (reachable_step w c r w')
  show ?case
  proof (cases c)
    case Reset
    with reachable_step.hyps show ?thesis
      by (auto simp add: reset_free_slots_zeroed)
  next
    case (Add p a sz k)
    with reachable_step.hyps obtain s' c' where
      "GDB_AddWatchpoint (sysw w) (ctxs w p) a sz k = (r, s', c')" and "sysw w' = s'"
      by (auto split: prod.splits)
    with reachable_step.IH show ?thesis
      using add_free_slots_zeroed by blast
  next
    case (Remove p a k)
    with reachable_step.hyps obtain s' c' where
      "GDB_RemoveWatchpoint (sysw w) (ctxs w p) a k = (r, s', c')" and "sysw w' = s'"
      by (auto split: prod.splits)
    with reachable_step.IH show ?thesis
      using remove_free_slots_zeroed by blast
  qed
qed

lemma owner_lookup_hits:
  assumes "free_slots_zeroed (manager s)"
    and "ctx_debug ctx \<noteq> 0" and "a \<noteq> 0"
    and "(occupied (fst (watchpoints (manager s)))
            \<and> debug (fst (watchpoints (manager s))) = ctx_debug ctx)
         \<or> (occupied (snd (watchpoints (manager s)))
            \<and> debug (snd (watchpoints (manager s))) = ctx_debug ctx)"
  shows "GDB_GetWatchpointKind s ctx a \<noteq> WATCHPOINT_DISABLED"
proof (cases "occupied (fst (watchpoints (manager s)))")
  case True
  with assms(4) show ?thesis
    by (auto simp add: get_kind_cases slot_matches_def occupied_def)
next
  case False
  with assms(1) have "fst (watchpoints (manager s)) = zero_Watchpoint"
    by (simp add: free_slots_zeroed_def)
  then have "\<not> slot_matches (fst (watchpoints (manager s))) ctx a"
    using assms(2,3) by (auto simp add: slot_matches_def zero_Watchpoint_def)
  moreover from False assms(4) have "occupied (snd (watchpoints (manager s)))
      \<and> debug (snd (watchpoints (manager s))) = ctx_debug ctx"
    by blast
  ultimately show ?thesis
    by (simp add: get_kind_cases slot_matches_def occupied_def)
qed

lemma owner_blocks_second_add:
  assumes "reachable w"
    and "ctx_debug ctx \<noteq> 0" and "a \<noteq> 0"
    and "(occupied (fst (watchpoints (manager (sysw w))))
            \<and> debug (fst (watchpoints (manager (sysw w)))) = ctx_debug ctx)
         \<or> (occupied (snd (watchpoints (manager (sysw w))))
            \<and> debug (snd (watchpoints (manager (sysw w)))) = ctx_debug ctx)"
    and "total (manager (sysw w)) \<noteq> 2"
    and "sz \<noteq> 0" and "\<not> (a - (a AND NOT 3) + sz > 4)" and "k \<noteq> WATCHPOINT_DISABLED"
  shows "GDB_AddWatchpoint (sysw w) ctx a sz k
           = (- EINVAL, RecursiveLock_Lock (sysw w), ctx)"
proof -
  have "free_slots_zeroed (manager (sysw w))"
    using assms(1) by (rule reachable_free_slots_zeroed)
  then have "GDB_GetWatchpointKind (sysw w) ctx a \<noteq> WATCHPOINT_DISABLED"
    using assms(2,3,4) by (rule owner_lookup_hits)
  then have "GDB_GetWatchpointKind (RecursiveLock_Lock (sysw w)) ctx a \<noteq> WATCHPOINT_DISABLED"
    by (simp add: get_kind_lock)
  moreover have "total (manager (RecursiveLock_Lock (sysw w))) \<noteq> 2"
    using assms(5) by (simp add: RecursiveLock_Lock_def)
  ultimately show ?thesis
    using assms(6,7,8) by (simp add: GDB_AddWatchpoint_def Let_def)
qed

subsection \<open>Where the count and the round trip do hold\<close>

text \<open>The count invariant is kept by a reset and by an addition; a removal keeps it when
  the slot its scan stops at is occupied.\<close>

lemma reset_count: "unat (total (manager (GDB_ResetWatchpoints s)))
                      = nb_occupied (manager (GDB_ResetWatchpoints s))"
  by (simp add: GDB_ResetWatchpoints_def Let_def svcSetHardwareBreakPoint_def
      RecursiveLock_Lock_def RecursiveLock_Unlock_def RecursiveLock_Init_def
      nb_occupied_def occupied_def zero_WatchpointManager_def zero_Watchpoint_def)

lemma add_count:
  assumes "unat (total (manager s)) = nb_occupied (manager s)"
    and "GDB_AddWatchpoint s ctx a sz k = (r, s', ctx')"
  shows "unat (total (manager s')) = nb_occupied (manager s')"
proof (cases "r = 0")
  case False
  with assms show ?thesis
    by (auto simp add: GDB_AddWatchpoint_def Let_def svcSetHardwareBreakPoint_def
        RecursiveLock_Lock_def RecursiveLock_Unlock_def
        split: if_splits prod.splits)
next
  case True
  have two: "total (manager s) \<noteq> 2"
    using assms(2) True
    by (auto simp add: GDB_AddWatchpoint_def Let_def RecursiveLock_Lock_def EBUSY_def
        split: if_splits)
  have le: "nb_occupied (manager s) \<le> 2"
    by (simp add: nb_occupied_def)
  have "nb_occupied (manager s) \<noteq> 2"
  proof
    assume "nb_occupied (manager s) = 2"
    with assms(1) have "unat (total (manager s)) = 2" by simp
    then have "total (manager s) = of_nat 2" by (rule word_of_unat)
    with two show False by simp
  qed
  with le have lt: "nb_occupied (manager s) < 2" by arith
  then have small: "unat (total (manager s)) < 2"
    using assms(1) by simp
  then have suc: "unat (total (manager s) + 1) = Suc (unat (total (manager s)))"
    by (simp add: unat_word_ariths)
  show ?thesis
    using assms(2) True lt assms(1) suc
    by (auto simp add: GDB_AddWatchpoint_def Let_def svcSetHardwareBreakPoint_def
        RecursiveLock_Lock_def RecursiveLock_Unlock_def EBUSY_def EINVAL_def
        nb_occupied_def occupied_def arr2_set_def arr2_get_def
        split: if_splits prod.splits)
qed

lemma remove_count:
  assumes "unat (total (manager s)) = nb_occupied (manager s)"
    and "GDB_RemoveWatchpoint s ctx a k = (r, s', ctx')"
    and "scan_slots (manager s) ctx a 0 < 2 \<longrightarrow>
           occupied (arr2_get (watchpoints (manager s)) (scan_slots (manager s) ctx a 0))"
  shows "unat (total (manager s')) = nb_occupied (manager s')"
proof (cases "r = 0")
  case False
  with assms(1,2) show ?thesis
    by (auto simp add: GDB_RemoveWatchpoint_def Let_def svcSetHardwareBreakPoint_def
        RecursiveLock_Lock_def RecursiveLock_Unlock_def
        split: if_splits)
next
  case True
  have i: "scan_slots (manager s) ctx a 0 < 2"
    using assms(2) True
    by (auto simp add: GDB_RemoveWatchpoint_def Let_def RecursiveLock_Lock_def EINVAL_def
        scan_slots_from_0 split: if_splits)
  with assms(3) have occ:
    "occupied (arr2_get (watchpoints (manager s)) (scan_slots (manager s) ctx a 0))"
    by simp
  then have "0 < nb_occupied (manager s)"
    by (auto simp add: nb_occupied_def arr2_get_def split: if_splits)
  with assms(1) have pos: "0 < unat (total (manager s))" by simp
  then have nz: "total (manager s) \<noteq> 0" by auto
  have pre: "unat (total (manager s) - 1) = unat (total (manager s)) - 1"
    using unat_minus_one [OF nz] by simp
  show ?thesis
    using assms(1,2) True occ pre pos
    by (auto simp add: GDB_RemoveWatchpoint_def Let_def svcSetHardwareBreakPoint_def
        RecursiveLock_Lock_def RecursiveLock_Unlock_def EINVAL_def scan_slots_from_0
        nb_occupied_def occupied_def arr2_set_def arr2_get_def zero_Watchpoint_def
        split: if_splits)
qed

text \<open>The state a successful addition leaves, and the state a successful removal
  leaves.\<close>

lemma add_success_state:
  assumes "GDB_AddWatchpoint s ctx a sz k = (0, s1, ctx1)"
    and "i = (if kind (fst (watchpoints (manager s))) = WATCHPOINT_DISABLED then 0 else 1)"
  shows "manager s1 = (manager s)\<lparr>total := total (manager s) + 1,
            watchpoints := arr2_set (watchpoints (manager s)) i
              \<lparr>address = a, size_w = sz, kind = k, debug = ctx_debug ctx\<rparr>\<rparr>"
    and "lockCount s1 = lockCount s"
    and "ctx1 = (store_watchpoint ctx (nbWatchpoints ctx) a)
                   \<lparr>nbWatchpoints := nbWatchpoints ctx + 1\<rparr>"
    and "k \<noteq> WATCHPOINT_DISABLED"
    and "GDB_GetWatchpointKind s ctx a = WATCHPOINT_DISABLED"
  using assms
  by (auto simp add: GDB_AddWatchpoint_def Let_def EBUSY_def EINVAL_def
      svcSetHardwareBreakPoint_def RecursiveLock_Lock_def RecursiveLock_Unlock_def
      get_kind_lockCount arr2_get_def
      split: if_splits prod.splits)

lemma remove_success_state:
  assumes "scan_slots (manager s) ctx a 0 = i" and "i < 2"
    and "kind (arr2_get (watchpoints (manager s)) i) = k"
    and "GDB_RemoveWatchpoint s ctx a k = (r, s', ctx')"
  shows "r = 0"
    and "manager s' = (manager s)\<lparr>watchpoints :=
            arr2_set (watchpoints (manager s)) i zero_Watchpoint,
            total := total (manager s) - 1\<rparr>"
    and "lockCount s' = lockCount s"
    and "ctx' = (if fst (ctx_watchpoints ctx) = a
                 then ctx\<lparr>ctx_watchpoints := (snd (ctx_watchpoints ctx), 0),
                          nbWatchpoints := nbWatchpoints ctx - 1\<rparr>
                 else if snd (ctx_watchpoints ctx) = a
                 then ctx\<lparr>ctx_watchpoints := (fst (ctx_watchpoints ctx), 0),
                          nbWatchpoints := nbWatchpoints ctx - 1\<rparr>
                 else ctx)"
  using assms
  by (auto simp add: GDB_RemoveWatchpoint_def Let_def
      svcSetHardwareBreakPoint_def RecursiveLock_Lock_def RecursiveLock_Unlock_def)

text \<open>The round trip of an addition and the removal of the same address gives back the
  manager and the session when the slot table has a free slot, free slots are zeroed,
  the session's live count is below 2 and the unused entries of its cache are 0.\<close>

lemma add_remove_round_trip:
  assumes add: "GDB_AddWatchpoint s ctx a sz k = (0, s1, ctx1)"
    and zeroed: "free_slots_zeroed (manager s)"
    and room: "\<not> (occupied (fst (watchpoints (manager s)))
                  \<and> occupied (snd (watchpoints (manager s))))"
    and nb: "nbWatchpoints ctx = 0 \<or> nbWatchpoints ctx = 1"
    and c0: "nbWatchpoints ctx = 0 \<longrightarrow> ctx_watchpoints ctx = (0, 0)"
    and c1: "nbWatchpoints ctx = 1 \<longrightarrow> snd (ctx_watchpoints ctx) = 0"
    and rem: "GDB_RemoveWatchpoint s1 ctx1 a k = (r, s2, ctx2)"
  shows "r = 0 \<and> manager s2 = manager s \<and> lockCount s2 = lockCount s \<and> ctx2 = ctx"
proof -
  define i :: nat where
    "i = (if kind (fst (watchpoints (manager s))) = WATCHPOINT_DISABLED then 0 else 1)"
  note st = add_success_state [OF add i_def]
  obtain w0 w1 where wps: "watchpoints (manager s) = (w0, w1)"
    by (cases "watchpoints (manager s)")
  obtain e0 e1 where cs: "ctx_watchpoints ctx = (e0, e1)"
    by (cases "ctx_watchpoints ctx")
  have free: "arr2_get (watchpoints (manager s)) i = zero_Watchpoint"
    using zeroed room wps
    by (auto simp add: i_def free_slots_zeroed_def occupied_def arr2_get_def)
  have before: "i = 1 \<longrightarrow> \<not> slot_matches w0 ctx a"
    using st(5) wps by (auto simp add: i_def get_kind_cases split: if_splits)
  have dbg: "ctx_debug ctx1 = ctx_debug ctx"
    using st(3) by (simp add: store_watchpoint_def)
  have scan: "scan_slots (manager s1) ctx1 a 0 = i"
    using before wps st(1) dbg
    by (auto simp add: i_def scan_slots_from_0 slot_matches_def arr2_set_def)
  have lt: "i < 2" by (simp add: i_def)
  have kd: "kind (arr2_get (watchpoints (manager s1)) i) = k"
    using st(1) wps by (simp add: i_def arr2_set_def arr2_get_def)
  note rs = remove_success_state [OF scan lt kd rem]
  have m: "manager s2 = manager s"
    using rs(2) st(1) free wps
    by (cases "manager s") (auto simp add: i_def arr2_set_def arr2_get_def)
  have c: "ctx2 = ctx"
    using rs(4) st(3) nb c0 c1 cs
    by (cases ctx) (auto simp add: arr2_set_def store_watchpoint_def)
  show ?thesis
    using rs(1,3) st(2) m c by simp
qed

end
